theory Spec2Isabelle
  imports Main "HOL-Library.Word"
begin

section \<open>Data model (package models)\<close>

text \<open>
  Go's \<open>int64\<close> is a 64-bit word read as two's complement (\<open>sint\<close>); arithmetic wraps.
  Go's \<open>int\<close> is taken at its width on the 64-bit targets the Dockerfile builds for, so
  \<open>int64(x)\<close> on an \<open>int\<close> is the identity. A Go \<open>string\<close> is a byte sequence, here
  \<open>string\<close>. A Go \<open>error\<close> is identified with the text its \<open>Error()\<close> method gives;
  \<open>nil\<close> is \<open>None\<close> where an error is optional.

  Where two Go structs use one field name, the later record primes it (\<open>Path'\<close>,
  \<open>Error'\<close>, \<open>TotalFiles'\<close>). The wall-clock fields (\<open>StartTime\<close>, \<open>LastUpdated\<close>,
  \<open>Duration\<close>, \<open>Timestamp\<close>, \<open>ScanDuration\<close>) and \<open>CurrentDirectory\<close> are left out:
  they are written from \<open>time.Now()\<close> and the arrival order only, and no function below
  reads them.
\<close>

type_synonym int64 = "64 word"
type_synonym err = string

record FileInfo =
  Path :: string
  Name :: string
  Size :: int64
  FileType :: string
  MimeType :: string
  Extension :: string
  ModTime :: int
  IsDirectory :: bool
  IsBlocked :: bool
  BlockReason :: string
  AccessError :: string

record ScanConfig =
  MaxFileSizeMB :: int64
  AllowedTypes :: "string list"
  BlockedPatterns :: "string list"
  ScanRecursively :: bool
  ExportBlockedToJSON :: bool
  WorkerCount :: int64
  BufferSize :: int64

record ScanProgress =
  TotalFiles :: int64
  ScannedFiles :: int64
  TotalSize :: int64
  ScannedSize :: int64
  BlockedFiles :: int64
  Errors :: "string list"

record ScanResult =
  Files :: "FileInfo list"
  Progress :: ScanProgress
  Success :: bool
  Error :: string

record ScanWork =
  Path' :: string
  IsDir :: bool
  Priority :: int64

record ScanWorkResult =
  FileInfo' :: FileInfo
  Error' :: "err option"

text \<open>The zero values Go gives a struct literal's unnamed fields.\<close>

definition zeroFileInfo :: FileInfo where
  "zeroFileInfo =
     \<lparr>Path = [], Name = [], Size = 0, FileType = [], MimeType = [], Extension = [],
      ModTime = 0, IsDirectory = False, IsBlocked = False, BlockReason = [],
      AccessError = []\<rparr>"

definition zeroScanProgress :: ScanProgress where
  "zeroScanProgress =
     \<lparr>TotalFiles = 0, ScannedFiles = 0, TotalSize = 0, ScannedSize = 0, BlockedFiles = 0,
      Errors = []\<rparr>"

section \<open>The standard library, as far as the scanner calls it\<close>

text \<open>
  \<open>strings.ToLower\<close> and \<open>strings.EqualFold\<close> on ASCII text: the letters \<open>A\<close> to \<open>Z\<close>
  fold to \<open>a\<close> to \<open>z\<close>, every other byte stands for itself. Go's folding of code points
  beyond ASCII is not modelled.
\<close>

definition lowerByte :: "char \<Rightarrow> char" where
  "lowerByte c =
     (if 65 \<le> (of_char c :: nat) \<and> (of_char c :: nat) \<le> 90
      then char_of ((of_char c :: nat) + 32) else c)"

definition ToLower :: "string \<Rightarrow> string" where
  "ToLower s = map lowerByte s"

definition EqualFold :: "string \<Rightarrow> string \<Rightarrow> bool" where
  "EqualFold s t = (map lowerByte s = map lowerByte t)"

text \<open>
  \<open>filepath.Ext\<close>: the suffix from the last dot of the last path element, empty when
  that element has no dot. The Go loop walks down from the last byte and stops at a
  separator; \<open>extScan\<close> is that loop on the reversed string, \<open>acc\<close> the bytes passed.
\<close>

fun extScan :: "string \<Rightarrow> string \<Rightarrow> string" where
  "extScan [] acc = []"
| "extScan (c # cs) acc =
     (if c = CHR ''/'' then []
      else if c = CHR ''.'' then c # acc
      else extScan cs (c # acc))"

definition Ext :: "string \<Rightarrow> string" where
  "Ext path = extScan (rev path) []"

text \<open>
  \<open>filepath.Base\<close>: trailing separators are stripped, then the last element is taken;
  the empty path gives a dot and a path of separators only gives one separator.
\<close>

definition Base :: "string \<Rightarrow> string" where
  "Base path =
     (if path = [] then ''.''
      else let p = rev (dropWhile (\<lambda>c. c = CHR ''/'') (rev path));
               b = rev (takeWhile (\<lambda>c. c \<noteq> CHR ''/'') (rev p))
           in if b = [] then ''/'' else b)"

text \<open>
  \<open>filepath.Join\<close> of a directory path and an entry name. Go also cleans the result;
  for a clean directory path and a plain entry name, as \<open>os.ReadDir\<close> gives them, the
  cleaned path is the concatenation below.
\<close>

definition Join :: "string \<Rightarrow> string \<Rightarrow> string" where
  "Join dir name =
     (if dir = [] then name
      else if last dir = CHR ''/'' then dir @ name
      else dir @ ''/'' @ name)"

definition TrimPrefix :: "string \<Rightarrow> string \<Rightarrow> string" where
  "TrimPrefix s prefix = (if take (length prefix) s = prefix then drop (length prefix) s else s)"

text \<open>
  \<open>filepath.Match\<close> and \<open>http.DetectContentType\<close> are parameters of the model. A
  matcher takes the pattern and the name and returns Go's pair \<open>(matched, err)\<close>.
\<close>

type_synonym matcher = "string \<Rightarrow> string \<Rightarrow> bool \<times> err option"
type_synonym sniffer = "string \<Rightarrow> string"

section \<open>The scanner (package scanner)\<close>

text \<open>
  The channels are kept as the sequence of values sent on them, oldest first. The
  mutex, the wait groups and \<open>doneChan\<close> carry no data.
\<close>

record Scanner =
  config :: ScanConfig
  progress :: ScanProgress
  workChan :: "ScanWork list"
  resultChan :: "ScanWorkResult list"
  errorChan :: "err list"

definition New :: "ScanConfig \<Rightarrow> Scanner" where
  "New cfg =
     (let c1 = (if sint (WorkerCount cfg) \<le> 0 then cfg\<lparr>WorkerCount := 4\<rparr> else cfg);
          c2 = (if sint (BufferSize c1) \<le> 0 then c1\<lparr>BufferSize := 1000\<rparr> else c1)
      in \<lparr>config = c2, progress = zeroScanProgress, workChan = [], resultChan = [],
          errorChan = []\<rparr>)"

definition isFileSizeAllowed :: "Scanner \<Rightarrow> int64 \<Rightarrow> bool" where
  "isFileSizeAllowed s sz = (sint sz \<le> sint (MaxFileSizeMB (config s) * 1024 * 1024))"

text \<open>The allow-list loop: \<open>isAllowed\<close> becomes true at the first entry that folds equal.\<close>

definition isAllowed :: "Scanner \<Rightarrow> FileInfo \<Rightarrow> bool" where
  "isAllowed s file =
     list_ex (\<lambda>allowedType. EqualFold (Extension file) allowedType) (AllowedTypes (config s))"

definition shouldBlockFile :: "matcher \<Rightarrow> Scanner \<Rightarrow> FileInfo \<Rightarrow> bool" where
  "shouldBlockFile Match s file =
     (if \<not> isFileSizeAllowed s (Size file) then True
      else if 0 < length (AllowedTypes (config s)) \<and> \<not> isAllowed s file then True
      else if list_ex (\<lambda>pattern. case Match pattern (Name file) of
                                    (matched, err) \<Rightarrow> err = None \<and> matched)
                (BlockedPatterns (config s)) then True
      else False)"

definition getBlockReason :: "matcher \<Rightarrow> Scanner \<Rightarrow> FileInfo \<Rightarrow> string" where
  "getBlockReason Match s file =
     (if \<not> isFileSizeAllowed s (Size file) then ''File size exceeds limit''
      else if 0 < length (AllowedTypes (config s)) \<and> \<not> isAllowed s file
        then ''File type not allowed''
      else case find (\<lambda>pattern. fst (Match pattern (Name file))) (BlockedPatterns (config s)) of
             Some pattern \<Rightarrow> ''File matches blocked pattern: '' @ pattern
           | None \<Rightarrow> ''Unknown reason'')"

section \<open>The filesystem\<close>

text \<open>
  \<open>FileStat\<close> is what an \<open>os.FileInfo\<close> answers. An \<open>fsobject\<close> is what the
  filesystem has at one path, given by the answers of the calls the scanner makes on
  that path: \<open>os.Stat\<close>, \<open>os.Open\<close>, the first \<open>Read\<close> of the opened file (the bytes
  it delivers and its error), and \<open>os.ReadDir\<close> (its error, or else the entries). A
  \<open>dirEntry\<close> has the entry's name, the answer of its \<open>Info()\<close>, and the object at the
  joined path. A regular file answers \<open>os.ReadDir\<close> with an error and a directory
  answers \<open>Read\<close> with one; the type allows every combination the calls can return.
\<close>

record FileStat =
  stName :: string
  stSize :: int64
  stModTime :: int
  stIsDir :: bool

datatype fsobject =
  Object (statOf: "err + FileStat") (openOf: "err option") (readOf: "string \<times> err option")
         (readDirOf: "err option") (entriesOf: "dirEntry list")
and dirEntry =
  DirEntry (entryName: string) (entryInfo: "err + FileStat") (entryObject: fsobject)

section \<open>Workers\<close>

text \<open>
  \<open>detectFileType\<close> returns the error together with the record as the pointer leaves
  it. The buffer has 512 bytes, so at most that many are read.
\<close>

definition detectFileType :: "sniffer \<Rightarrow> fsobject \<Rightarrow> FileInfo \<Rightarrow> err option \<times> FileInfo" where
  "detectFileType DetectContentType obj file =
     (case openOf obj of
        Some e \<Rightarrow> (Some e, file)
      | None \<Rightarrow>
          (let buffer = take 512 (fst (readOf obj)); n = length buffer; e = snd (readOf obj)
           in if e \<noteq> None \<and> n = 0 then (e, file)
              else
                let file1 = file\<lparr>MimeType := DetectContentType buffer\<rparr>;
                    file2 = (if Extension file1 \<noteq> []
                             then file1\<lparr>FileType := TrimPrefix (Extension file1) ''.''\<rparr>
                             else file1\<lparr>FileType :=
                                    takeWhile (\<lambda>c. c \<noteq> CHR ''/'') (MimeType file1)\<rparr>)
                in (None, file2)))"

text \<open>The branch of \<open>processWork\<close> for a work item that is not a directory.\<close>

definition processFile ::
  "matcher \<Rightarrow> sniffer \<Rightarrow> ScanWork \<Rightarrow> fsobject \<Rightarrow> Scanner \<Rightarrow> Scanner" where
  "processFile Match DetectContentType work obj s =
     (let fileInfo = zeroFileInfo\<lparr>Path := Path' work, Name := Base (Path' work)\<rparr>
      in case statOf obj of
           Inl e \<Rightarrow>
             s\<lparr>resultChan := resultChan s @ [\<lparr>FileInfo' = fileInfo, Error' = Some e\<rparr>]\<rparr>
         | Inr info \<Rightarrow>
             (let fileInfo1 = fileInfo\<lparr>Size := stSize info, ModTime := stModTime info,
                                IsDirectory := stIsDir info,
                                Extension := ToLower (Ext (stName info))\<rparr>;
                  fileInfo2 = (case detectFileType DetectContentType obj fileInfo1 of
                                 (Some e, f) \<Rightarrow> f\<lparr>AccessError := e\<rparr>
                               | (None, f) \<Rightarrow> f);
                  fileInfo3 = (if shouldBlockFile Match s fileInfo2
                               then fileInfo2\<lparr>IsBlocked := True,
                                      BlockReason := getBlockReason Match s fileInfo2\<rparr>
                               else fileInfo2);
                  p1 = (progress s)\<lparr>ScannedFiles := ScannedFiles (progress s) + 1\<rparr>;
                  p2 = p1\<lparr>ScannedSize := ScannedSize p1 + Size fileInfo3\<rparr>;
                  p3 = (if IsBlocked fileInfo3
                        then p2\<lparr>BlockedFiles := BlockedFiles p2 + 1\<rparr> else p2)
              in s\<lparr>progress := p3,
                   resultChan := resultChan s @ [\<lparr>FileInfo' = fileInfo3, Error' = None\<rparr>]\<rparr>))"

section \<open>Traversal\<close>

text \<open>
  One schedule of the goroutines is modelled: a traversal task started with \<open>go\<close> runs
  at once and to its end, and a work item is taken by a worker as soon as it is sent.
  Sends never wait here; what a full channel does is accounted for in \<open>Scan\<close>. The
  context is cancelled only when \<open>Scan\<close> returns, so the \<open>ctx.Done()\<close> branches are
  never taken. \<open>scanEntries\<close> is the \<open>for ... range entries\<close> loop of \<open>scanDirectory\<close>.
\<close>

definition emitDir :: "string \<Rightarrow> string \<Rightarrow> Scanner \<Rightarrow> Scanner" where
  "emitDir path name s =
     s\<lparr>resultChan := resultChan s @
          [\<lparr>FileInfo' = zeroFileInfo\<lparr>Path := path, Name := name, IsDirectory := True\<rparr>,
            Error' = None\<rparr>],
       progress := (progress s)\<lparr>TotalFiles := TotalFiles (progress s) + 1\<rparr>\<rparr>"

definition sendError :: "err \<Rightarrow> Scanner \<Rightarrow> Scanner" where
  "sendError e s = s\<lparr>errorChan := errorChan s @ [e]\<rparr>"

definition sendWork :: "ScanWork \<Rightarrow> Scanner \<Rightarrow> Scanner" where
  "sendWork work s = s\<lparr>workChan := workChan s @ [work]\<rparr>"

fun processWork ::
  "matcher \<Rightarrow> sniffer \<Rightarrow> ScanWork \<Rightarrow> fsobject \<Rightarrow> Scanner \<Rightarrow> Scanner"
and scanDirectory ::
  "matcher \<Rightarrow> sniffer \<Rightarrow> string \<Rightarrow> string \<Rightarrow> fsobject \<Rightarrow> Scanner \<Rightarrow> Scanner"
and scanEntries ::
  "matcher \<Rightarrow> sniffer \<Rightarrow> string \<Rightarrow> string \<Rightarrow> dirEntry list \<Rightarrow> Scanner \<Rightarrow> Scanner"
where
  "processWork Match Detect work obj s =
     (if IsDir work then scanDirectory Match Detect (Path' work) (Path' work) obj s
      else processFile Match Detect work obj s)"
| "scanDirectory Match Detect path root (Object st op rd rderr entries) s =
     (let s1 = (if path = root then emitDir path (Base path) s else s)
      in case rderr of
           Some e \<Rightarrow> sendError (''error reading directory '' @ path @ '': '' @ e) s1
         | None \<Rightarrow> scanEntries Match Detect path root entries s1)"
| "scanEntries Match Detect path root [] s = s"
| "scanEntries Match Detect path root (DirEntry name einfo obj # rest) s =
     (let fullPath = Join path name
      in case einfo of
           Inl e \<Rightarrow>
             scanEntries Match Detect path root rest
               (sendError (''error getting info for '' @ fullPath @ '': '' @ e) s)
         | Inr info \<Rightarrow>
             if stIsDir info then
               if ScanRecursively (config s) then
                 scanEntries Match Detect path root rest
                   (scanDirectory Match Detect fullPath root obj
                      (emitDir fullPath (stName info) s))
               else if path = root then
                 scanEntries Match Detect path root rest (emitDir fullPath (stName info) s)
               else scanEntries Match Detect path root rest s
             else if ExportBlockedToJSON (config s) \<and> Base fullPath = ''blocked_files.json''
               then scanEntries Match Detect path root rest s
             else
               scanEntries Match Detect path root rest
                 (processWork Match Detect \<lparr>Path' = fullPath, IsDir = False, Priority = 1\<rparr> obj
                    (sendWork \<lparr>Path' = fullPath, IsDir = False, Priority = 1\<rparr> s)))"

section \<open>Result collector\<close>

text \<open>
  \<open>collectResults\<close> ranges over the result channel until it is closed: a result with
  an error adds its text to the progress error log, any other adds its record to
  \<open>files\<close>. It returns the file list and the progress.
\<close>

fun collectResults ::
  "ScanWorkResult list \<Rightarrow> FileInfo list \<Rightarrow> ScanProgress \<Rightarrow> FileInfo list \<times> ScanProgress" where
  "collectResults [] files p = (files, p)"
| "collectResults (res # rest) files p =
     (case Error' res of
        Some e \<Rightarrow> collectResults rest files (p\<lparr>Errors := Errors p @ [e]\<rparr>)
      | None \<Rightarrow> collectResults rest (files @ [FileInfo' res]) p)"

section \<open>Export (package jsonexport)\<close>

text \<open>
  \<open>ExportEnv\<close> holds the answers of the calls the export makes: \<open>os.MkdirAll\<close>,
  \<open>os.Create\<close> and the encoder's \<open>Encode\<close>. \<open>Dir\<close> is \<open>filepath.Dir\<close> on a clean
  path: the path without its last element and the separator before it.
\<close>

record ExportData =
  TotalFiles' :: int64
  BlockedFiles' :: "FileInfo list"
  BlockedCount :: int64
  TotalSize' :: int64
  BlockedSize :: int64

record ExportEnv =
  MkdirAll :: "string \<Rightarrow> err option"
  Create :: "string \<Rightarrow> err option"
  Encode :: "ExportData \<Rightarrow> err option"

definition Dir :: "string \<Rightarrow> string" where
  "Dir path =
     (let d = rev (dropWhile (\<lambda>c. c \<noteq> CHR ''/'') (rev path))
      in if d = [] then ''.'' else if d = ''/'' then d else butlast d)"

definition ExportBlockedFiles :: "ExportEnv \<Rightarrow> ScanResult \<Rightarrow> string \<Rightarrow> err + ExportData" where
  "ExportBlockedFiles env result outputPath =
     (let blockedFiles = filter IsBlocked (Files result);
          blockedSize = foldl (\<lambda>acc file. acc + Size file) 0 blockedFiles;
          exportData = \<lparr>TotalFiles' = TotalFiles (Progress result),
                        BlockedFiles' = blockedFiles,
                        BlockedCount = of_nat (length blockedFiles),
                        TotalSize' = TotalSize (Progress result),
                        BlockedSize = blockedSize\<rparr>
      in case MkdirAll env (Dir outputPath) of
           Some e \<Rightarrow> Inl (''failed to create output directory: '' @ e)
         | None \<Rightarrow>
             (case Create env outputPath of
                Some e \<Rightarrow> Inl (''failed to create output file: '' @ e)
              | None \<Rightarrow>
                  (case Encode env exportData of
                     Some e \<Rightarrow> Inl (''failed to encode JSON: '' @ e)
                   | None \<Rightarrow> Inr exportData)))"

section \<open>Scan orchestrator\<close>

definition startScan :: "fsobject \<Rightarrow> string \<Rightarrow> Scanner \<Rightarrow> err + Scanner" where
  "startScan fs root s =
     (case statOf fs of
        Inl e \<Rightarrow> Inl e
      | Inr info \<Rightarrow> Inr (sendWork \<lparr>Path' = root, IsDir = stIsDir info, Priority = 1\<rparr> s))"

text \<open>
  \<open>scanState\<close> is the scanner once the workers have returned: \<open>startScan\<close> has queued
  the root item and a worker has taken it.
\<close>

definition scanState :: "matcher \<Rightarrow> sniffer \<Rightarrow> fsobject \<Rightarrow> string \<Rightarrow> Scanner \<Rightarrow> err + Scanner" where
  "scanState Match Detect fs root s =
     (case startScan fs root s of
        Inl e \<Rightarrow> Inl e
      | Inr s1 \<Rightarrow> Inr (processWork Match Detect (last (workChan s1)) fs s1))"

text \<open>
  A call of \<open>Scan\<close> returns an error, returns a result, or never returns. It
  returns when the root item is a directory and \<open>errorChan\<close> could take every error
  sent. It never returns
  \<^item> when the root is not a directory: \<open>dirWg\<close> was incremented for a traversal task
    that is never started, so \<open>dirWg.Wait()\<close> does not return and the work channel is
    never closed;
  \<^item> when more errors are sent on \<open>errorChan\<close> than its buffer holds: nothing receives
    from it, the sending traversal task waits forever and never reaches its
    \<open>dirWg.Done()\<close>.
  Waiting on a full work channel is not modelled: with two or more workers an item is
  always taken.
\<close>

datatype ScanOutcome = ScanError err | ScanOk ScanResult | NeverReturns

definition Scan ::
  "matcher \<Rightarrow> sniffer \<Rightarrow> ExportEnv \<Rightarrow> fsobject \<Rightarrow> Scanner \<Rightarrow> string \<Rightarrow> ScanOutcome" where
  "Scan Match Detect env fs s root =
     (if root = [] then ScanError ''empty path provided''
      else case statOf fs of
        Inl e \<Rightarrow> ScanError e
      | Inr _ \<Rightarrow>
          (case startScan fs root s of
             Inl e \<Rightarrow> ScanError (''scan error: '' @ e)
           | Inr s1 \<Rightarrow>
               (let work = last (workChan s1);
                    s2 = processWork Match Detect work fs s1
                in if IsDir work \<and> int (length (errorChan s2)) \<le> sint (BufferSize (config s2))
                   then
                     (case collectResults (resultChan s2) [] (progress s2) of
                        (files, p) \<Rightarrow>
                          (let result = \<lparr>Files = files, Progress = p,
                                          Success = (length (Errors p) = 0), Error = []\<rparr>
                           in if ExportBlockedToJSON (config s2) then
                                (case ExportBlockedFiles env result
                                        (Join root ''blocked_files.json'') of
                                   Inl e \<Rightarrow>
                                     ScanOk (result\<lparr>Progress := (Progress result)
                                       \<lparr>Errors := Errors (Progress result) @
                                          [''Failed to export blocked files: '' @ e]\<rparr>\<rparr>)
                                 | Inr _ \<Rightarrow> ScanOk result)
                              else ScanOk result))
                   else NeverReturns)))"

section \<open>The classifier's rules in the specification's words\<close>

text \<open>
  The size limit in bytes as the product of unbounded integers, the three rules in
  their order of precedence, and the reason text of each. The size rule is violated
  when the size is greater than that limit, the allow-list rule when the list is not
  empty and no entry equals the extension up to case, and a pattern rule when the base
  name matches the pattern and the match reports no error.
\<close>

definition limitBytes :: "Scanner \<Rightarrow> int" where
  "limitBytes s = sint (MaxFileSizeMB (config s)) * 1024 * 1024"

datatype rule = SizeRule | AllowListRule | PatternRule string

definition nameMatches :: "matcher \<Rightarrow> FileInfo \<Rightarrow> string \<Rightarrow> bool" where
  "nameMatches Match file pattern =
     (fst (Match pattern (Name file)) \<and> snd (Match pattern (Name file)) = None)"

definition firstViolatedRule :: "matcher \<Rightarrow> Scanner \<Rightarrow> FileInfo \<Rightarrow> rule option" where
  "firstViolatedRule Match s file =
     (if limitBytes s < sint (Size file) then Some SizeRule
      else if AllowedTypes (config s) \<noteq> [] \<and>
              \<not> (\<exists>t \<in> set (AllowedTypes (config s)). EqualFold (Extension file) t)
        then Some AllowListRule
      else map_option PatternRule
             (find (nameMatches Match file) (BlockedPatterns (config s))))"

fun reasonOf :: "rule option \<Rightarrow> string" where
  "reasonOf (Some SizeRule) = ''File size exceeds limit''"
| "reasonOf (Some AllowListRule) = ''File type not allowed''"
| "reasonOf (Some (PatternRule p)) = ''File matches blocked pattern: '' @ p"
| "reasonOf None = ''Unknown reason''"

text \<open>
  What \<open>filepath.Match\<close> guarantees and \<open>getBlockReason\<close> relies on when it drops the
  error: a match that reports an error reports \<open>matched = false\<close>. It is stated for
  the patterns and the name at hand.
\<close>

definition errorMeansNoMatch :: "matcher \<Rightarrow> string list \<Rightarrow> string \<Rightarrow> bool" where
  "errorMeansNoMatch Match patterns name =
     (\<forall>p \<in> set patterns. snd (Match p name) \<noteq> None \<longrightarrow> \<not> fst (Match p name))"

text \<open>The scanner without the patterns whose match against the file's name reports an error.\<close>

definition dropMalformed :: "matcher \<Rightarrow> FileInfo \<Rightarrow> Scanner \<Rightarrow> Scanner" where
  "dropMalformed Match file s =
     s\<lparr>config := (config s)\<lparr>BlockedPatterns :=
          filter (\<lambda>p. snd (Match p (Name file)) = None) (BlockedPatterns (config s))\<rparr>\<rparr>"

section \<open>Concrete inputs\<close>

text \<open>
  \<open>simpleMatch\<close> is a matcher for patterns of literal bytes, \<open>?\<close> and \<open>*\<close>; like
  \<open>filepath.Match\<close> it reports a bracket that is never closed as a malformed pattern.
  \<open>octetSniffer\<close> answers every prefix with the fallback type of
  \<open>http.DetectContentType\<close>.
\<close>

fun globMatch :: "string \<Rightarrow> string \<Rightarrow> bool" where
  "globMatch [] name = (name = [])"
| "globMatch (p # ps) [] = (p = CHR ''*'' \<and> globMatch ps [])"
| "globMatch (p # ps) (c # cs) =
     (if p = CHR ''*'' then globMatch ps (c # cs) \<or> (c \<noteq> CHR ''/'' \<and> globMatch (p # ps) cs)
      else if p = CHR ''?'' then c \<noteq> CHR ''/'' \<and> globMatch ps cs
      else p = c \<and> globMatch ps cs)"

definition simpleMatch :: matcher where
  "simpleMatch pattern name =
     (if CHR ''['' \<in> set pattern \<and> CHR '']'' \<notin> set pattern
      then (False, Some ''syntax error in pattern'')
      else (globMatch pattern name, None))"

definition octetSniffer :: sniffer where
  "octetSniffer buffer = ''application/octet-stream''"

definition exportWorks :: ExportEnv where
  "exportWorks = \<lparr>MkdirAll = (\<lambda>_. None), Create = (\<lambda>_. None), Encode = (\<lambda>_. None)\<rparr>"

definition exportDenied :: ExportEnv where
  "exportDenied =
     \<lparr>MkdirAll = (\<lambda>_. None), Create = (\<lambda>_. Some ''permission denied''), Encode = (\<lambda>_. None)\<rparr>"

text \<open>
  A readable regular file with the given content, a directory with the given entries,
  a directory that cannot be listed, a file that cannot be opened, and the directory
  entry of an object under a name.
\<close>

definition regularFile :: "string \<Rightarrow> string \<Rightarrow> fsobject" where
  "regularFile name content =
     Object (Inr \<lparr>stName = name, stSize = of_nat (length content), stModTime = 0,
                  stIsDir = False\<rparr>)
       None (content, if content = [] then Some ''EOF'' else None) (Some ''not a directory'') []"

definition directory :: "string \<Rightarrow> dirEntry list \<Rightarrow> fsobject" where
  "directory name entries =
     Object (Inr \<lparr>stName = name, stSize = 4096, stModTime = 0, stIsDir = True\<rparr>)
       None ([], Some ''is a directory'') None entries"

definition lockedDirectory :: "string \<Rightarrow> fsobject" where
  "lockedDirectory name =
     Object (Inr \<lparr>stName = name, stSize = 4096, stModTime = 0, stIsDir = True\<rparr>)
       (Some ''permission denied'') ([], None) (Some ''permission denied'') []"


definition entry :: "string \<Rightarrow> fsobject \<Rightarrow> dirEntry" where
  "entry name obj = DirEntry name (statOf obj) obj"

definition configMB :: "int64 \<Rightarrow> ScanConfig" where
  "configMB mb =
     \<lparr>MaxFileSizeMB = mb, AllowedTypes = [], BlockedPatterns = [], ScanRecursively = True,
      ExportBlockedToJSON = False, WorkerCount = 0, BufferSize = 0\<rparr>"

definition tinyFile :: FileInfo where
  "tinyFile = zeroFileInfo\<lparr>Path := ''/r/a.txt'', Name := ''a.txt'', Size := 1,
                Extension := ''.txt''\<rparr>"

definition tempFile :: FileInfo where
  "tempFile = zeroFileInfo\<lparr>Path := ''/r/temp.tmp'', Name := ''temp.tmp'', Size := 4,
                Extension := ''.tmp''\<rparr>"

definition patternScanner :: Scanner where
  "patternScanner = New ((configMB 10)\<lparr>BlockedPatterns := [''['', ''*.tmp'']\<rparr>)"

definition limitFile :: FileInfo where
  "limitFile = zeroFileInfo\<lparr>Path := ''/r/big.bin'', Name := ''big.bin'', Size := 1048576,
                 Extension := ''.bin''\<rparr>"

definition overLimitFile :: FileInfo where
  "overLimitFile = limitFile\<lparr>Size := 1048577\<rparr>"

text \<open>
  A small tree: the root \<open>/r\<close> holds a file and a subdirectory with one file. The
  second tree holds a file and a directory that cannot be listed, the third a
  directory whose name has a dot and a file without extension.
\<close>

definition exampleTree :: fsobject where
  "exampleTree =
     directory ''r''
       [entry ''a.txt'' (regularFile ''a.txt'' ''hello''),
        entry ''sub'' (directory ''sub'' [entry ''b.txt'' (regularFile ''b.txt'' ''hi'')])]"

definition lockedTree :: fsobject where
  "lockedTree =
     directory ''r''
       [entry ''a.txt'' (regularFile ''a.txt'' ''hello''),
        entry ''locked'' (lockedDirectory ''locked'')]"

definition dottedTree :: fsobject where
  "dottedTree =
     directory ''r''
       [entry ''my.dir'' (directory ''my.dir'' []),
        entry ''README'' (regularFile ''README'' ''hello'')]"



text \<open>The results on the channel that carry no error, counted as the counters count.\<close>

definition recordCount :: "ScanWorkResult list \<Rightarrow> int64" where
  "recordCount rs = of_nat (length (filter (\<lambda>res. Error' res = None) rs))"

text \<open>
  A tree with an entry that \<open>os.Stat\<close> no longer finds when the worker gets to it, and
  a scanner configured to export.
\<close>

definition vanishedTree :: fsobject where
  "vanishedTree =
     directory ''r''
       [DirEntry ''gone.txt''
          (Inr \<lparr>stName = ''gone.txt'', stSize = 3, stModTime = 0, stIsDir = False\<rparr>)
          (Object (Inl ''stat /r/gone.txt: no such file or directory'')
             (Some ''no such file or directory'') ([], None) (Some ''no such file or directory'')
             [])]"

definition exportingScanner :: Scanner where
  "exportingScanner = New ((configMB 1)\<lparr>ExportBlockedToJSON := True\<rparr>)"

definition emptyEntryScanner :: Scanner where
  "emptyEntryScanner = New ((configMB 1)\<lparr>AllowedTypes := [[]]\<rparr>)"

definition txtOnlyScanner :: Scanner where
  "txtOnlyScanner = New ((configMB 1)\<lparr>AllowedTypes := [''.txt'']\<rparr>)"

text \<open>
  In the specification's words: the export collaborator fails (it is configured and
  returns an error), and the content read for type sniffing fails with an error
  (the file cannot be opened, or the read delivers no byte and an error).
\<close>

definition exportFails :: "ExportEnv \<Rightarrow> Scanner \<Rightarrow> ScanResult \<Rightarrow> string \<Rightarrow> bool" where
  "exportFails env s r root =
     (ExportBlockedToJSON (config s) \<and>
      isl (ExportBlockedFiles env r (Join root ''blocked_files.json'')))"

definition readFails :: "fsobject \<Rightarrow> err \<Rightarrow> bool" where
  "readFails obj e =
     (openOf obj = Some e \<or>
      (openOf obj = None \<and> snd (readOf obj) = Some e \<and> fst (readOf obj) = []))"

section \<open>Facts about the library functions\<close>

lemma lowerByte_idem: "lowerByte (lowerByte c) = lowerByte c"
  unfolding lowerByte_def by simp

lemma lowerByte_dot: "lowerByte c = CHR ''.'' \<longleftrightarrow> c = CHR ''.''"
proof
  assume h: "lowerByte c = CHR ''.''"
  show "c = CHR ''.''"
  proof (cases "65 \<le> (of_char c :: nat) \<and> (of_char c :: nat) \<le> 90")
    case True
    then have "char_of ((of_char c :: nat) + 32) = CHR ''.''"
      using h by (simp add: lowerByte_def)
    then have "(of_char (char_of ((of_char c :: nat) + 32)) :: nat) = of_char (CHR ''.'')"
      by (rule arg_cong)
    then have m: "((of_char c :: nat) + 32) mod 256 = 46"
      by (simp only: of_char_of) simp
    from True have "(of_char c :: nat) + 32 < 256" by linarith
    then have "((of_char c :: nat) + 32) mod 256 = of_char c + 32" by (rule mod_less)
    with m True show ?thesis by linarith
  next
    case False
    then have "lowerByte c = c" unfolding lowerByte_def by (rule if_not_P)
    with h show ?thesis by simp
  qed
next
  assume "c = CHR ''.''"
  then show "lowerByte c = CHR ''.''" by (simp add: lowerByte_def)
qed

lemma EqualFold_ToLower: "EqualFold (ToLower s) t \<longleftrightarrow> ToLower s = ToLower t"
  by (simp add: EqualFold_def ToLower_def comp_def lowerByte_idem)

lemma extScan_shape: "extScan cs acc = [] \<or> (\<exists>r. extScan cs acc = CHR ''.'' # r)"
  by (induction cs acc rule: extScan.induct) auto

lemma Ext_shape: "Ext p = [] \<or> (\<exists>r. Ext p = CHR ''.'' # r)"
  using extScan_shape [of "rev p" "[]"] by (simp add: Ext_def)

lemma sint_limit:
  fixes m :: int64
  assumes "- (2 ^ 43) \<le> sint m" and "sint m < 2 ^ 43"
  shows "sint (m * 1024 * 1024) = sint m * 1024 * 1024"
proof -
  have e: "m * 1024 * 1024 = m * 1048576" by simp
  have "sint (m * 1048576) = signed_take_bit 63 (sint m * sint (1048576 :: int64))"
    by (simp only: sint_word_mult) simp
  also have "sint (1048576 :: int64) = 1048576" by simp
  also have "signed_take_bit 63 (sint m * 1048576) = sint m * 1048576"
    using assms by (intro signed_take_bit_int_eq_self) auto
  finally have "sint (m * 1048576) = sint m * 1048576" .
  then show ?thesis by (simp only: e)
qed

lemma find_cong_set: "(\<And>x. x \<in> set xs \<Longrightarrow> P x = Q x) \<Longrightarrow> find P xs = find Q xs"
  by (induction xs) auto

lemma find_filter_weaker: "(\<And>x. P x \<Longrightarrow> Q x) \<Longrightarrow> find P (filter Q xs) = find P xs"
  by (induction xs) auto

lemma find_Some_D: "find P xs = Some x \<Longrightarrow> P x \<and> x \<in> set xs"
  by (induction xs) (auto split: if_splits)

section \<open>The classifier\<close>

lemma isAllowed_iff:
  "isAllowed s file = (\<exists>t \<in> set (AllowedTypes (config s)). EqualFold (Extension file) t)"
  by (simp add: isAllowed_def list_ex_iff)

lemma pattern_loops_agree:
  assumes "errorMeansNoMatch Match ps (Name file)"
  shows "find (\<lambda>p. fst (Match p (Name file))) ps = find (nameMatches Match file) ps"
  using assms
  by (intro find_cong_set) (auto simp: errorMeansNoMatch_def nameMatches_def)

lemma list_ex_nameMatches:
  "list_ex (\<lambda>pattern. case Match pattern (Name file) of (matched, err) \<Rightarrow> err = None \<and> matched) ps
   = (find (nameMatches Match file) ps \<noteq> None)"
  by (induction ps) (auto simp: nameMatches_def split: prod.splits)

lemma reasonOf_unknown: "reasonOf r = ''Unknown reason'' \<longleftrightarrow> r = None"
  by (cases r rule: reasonOf.cases) auto

lemma isFileSizeAllowed_dropMalformed [simp]:
  "isFileSizeAllowed (dropMalformed Match file s) sz = isFileSizeAllowed s sz"
  by (simp add: isFileSizeAllowed_def dropMalformed_def)

lemma isAllowed_dropMalformed [simp]:
  "isAllowed (dropMalformed Match file s) f = isAllowed s f"
  by (simp add: isAllowed_def dropMalformed_def)

lemma size_rule_in_range:
  assumes "- (2 ^ 43) \<le> sint (MaxFileSizeMB (config s))"
      and "sint (MaxFileSizeMB (config s)) < 2 ^ 43"
  shows "(\<not> isFileSizeAllowed s sz) = (limitBytes s < sint sz)"
  using sint_limit [OF assms] by (auto simp: isFileSizeAllowed_def limitBytes_def)

text \<open>
  C2, as amended. When the limit in bytes fits a signed 64-bit integer, that is for
  \<open>-2^43 \<le> MaxFileSizeMB < 2^43\<close>, the size rule blocks a file exactly when its size
  is greater than \<open>MaxFileSizeMB * 1024 * 1024\<close>: a file of exactly that size passes
  the size rule, and a file one byte larger is blocked with the reason
  "File size exceeds limit".
\<close>

theorem size_rule_boundary:
  assumes "- (2 ^ 43) \<le> sint (MaxFileSizeMB (config s))"
      and "sint (MaxFileSizeMB (config s)) < 2 ^ 43"
  shows "(\<not> isFileSizeAllowed s (Size file)) = (limitBytes s < sint (Size file)) \<and>
         (sint (Size file) = limitBytes s \<longrightarrow> isFileSizeAllowed s (Size file)) \<and>
         (sint (Size file) = limitBytes s + 1 \<longrightarrow>
            shouldBlockFile Match s file \<and>
            getBlockReason Match s file = ''File size exceeds limit'')"
  using sint_limit [OF assms]
  by (auto simp: isFileSizeAllowed_def limitBytes_def shouldBlockFile_def getBlockReason_def)

theorem size_rule_boundary_witness:
  "- (2 ^ 43) \<le> sint (MaxFileSizeMB (config (New (configMB 1)))) \<and>
   sint (MaxFileSizeMB (config (New (configMB 1)))) < 2 ^ 43 \<and>
   sint (Size limitFile) = limitBytes (New (configMB 1)) \<and>
   isFileSizeAllowed (New (configMB 1)) (Size limitFile) \<and>
   sint (Size overLimitFile) = limitBytes (New (configMB 1)) + 1 \<and>
   shouldBlockFile simpleMatch (New (configMB 1)) overLimitFile \<and>
   getBlockReason simpleMatch (New (configMB 1)) overLimitFile = ''File size exceeds limit''"
proof -
  have m: "sint (MaxFileSizeMB (config (New (configMB 1)))) = 1"
    by (simp add: New_def configMB_def)
  have l: "limitBytes (New (configMB 1)) = 1048576"
    by (simp add: limitBytes_def m)
  have a: "sint (Size limitFile) = 1048576" and b: "sint (Size overLimitFile) = 1048577"
    by (simp_all add: limitFile_def overLimitFile_def)
  have h1: "- (2 ^ 43) \<le> sint (MaxFileSizeMB (config (New (configMB 1))))"
    and h2: "sint (MaxFileSizeMB (config (New (configMB 1)))) < 2 ^ 43"
    by (simp_all add: m)
  show ?thesis
    using size_rule_boundary [OF h1 h2, of limitFile simpleMatch]
      size_rule_boundary [OF h1 h2, of overLimitFile simpleMatch] h1 h2 l a b
    by simp
qed

text \<open>
  C2 as stated fails where the product wraps: with \<open>MaxFileSizeMB = 2^43\<close> the limit
  is \<open>2^63\<close> bytes, the Go product is \<open>-2^63\<close>, and a file of one byte, far below the
  limit, is blocked by the size rule.
\<close>

theorem size_rule_wraps_counterexample:
  "sint (Size tinyFile) \<le> limitBytes (New (configMB 8796093022208)) \<and>
   \<not> isFileSizeAllowed (New (configMB 8796093022208)) (Size tinyFile) \<and>
   shouldBlockFile simpleMatch (New (configMB 8796093022208)) tinyFile \<and>
   getBlockReason simpleMatch (New (configMB 8796093022208)) tinyFile = ''File size exceeds limit''"
  by (simp add: limitBytes_def New_def configMB_def tinyFile_def isFileSizeAllowed_def
      shouldBlockFile_def getBlockReason_def)

text \<open>
  C8. \<open>New\<close> resolves only the worker count and the buffer size; every other field of
  the configuration is kept, the maximum size included. With \<open>MaxFileSizeMB = 0\<close> the
  size rule allows exactly the sizes up to 0, so every file of positive size is blocked
  with the size reason.
\<close>

theorem no_default_max_size:
  "MaxFileSizeMB (config (New cfg)) = MaxFileSizeMB cfg \<and>
   AllowedTypes (config (New cfg)) = AllowedTypes cfg \<and>
   BlockedPatterns (config (New cfg)) = BlockedPatterns cfg \<and>
   ScanRecursively (config (New cfg)) = ScanRecursively cfg \<and>
   ExportBlockedToJSON (config (New cfg)) = ExportBlockedToJSON cfg \<and>
   WorkerCount (config (New cfg)) = (if sint (WorkerCount cfg) \<le> 0 then 4 else WorkerCount cfg) \<and>
   BufferSize (config (New cfg)) = (if sint (BufferSize cfg) \<le> 0 then 1000 else BufferSize cfg) \<and>
   (MaxFileSizeMB cfg = 0 \<longrightarrow>
      isFileSizeAllowed (New cfg) sz = (sint sz \<le> 0) \<and>
      (0 < sint (Size file) \<longrightarrow>
         shouldBlockFile Match (New cfg) file \<and>
         getBlockReason Match (New cfg) file = ''File size exceeds limit''))"
  by (simp add: New_def Let_def isFileSizeAllowed_def shouldBlockFile_def getBlockReason_def)

theorem no_default_max_size_witness:
  "MaxFileSizeMB (configMB 0) = 0 \<and> 0 < sint (Size tinyFile) \<and>
   MaxFileSizeMB (config (New (configMB 0))) = 0 \<and>
   WorkerCount (config (New (configMB 0))) = 4 \<and>
   BufferSize (config (New (configMB 0))) = 1000 \<and>
   \<not> isFileSizeAllowed (New (configMB 0)) (Size tinyFile) \<and>
   shouldBlockFile simpleMatch (New (configMB 0)) tinyFile \<and>
   getBlockReason simpleMatch (New (configMB 0)) tinyFile = ''File size exceeds limit''"
proof -
  have c: "MaxFileSizeMB (configMB 0) = 0" "sint (WorkerCount (configMB 0)) \<le> 0"
    "sint (BufferSize (configMB 0)) \<le> 0"
    by (simp_all add: configMB_def)
  have f: "0 < sint (Size tinyFile)" by (simp add: tinyFile_def)
  show ?thesis
    using no_default_max_size [of "configMB 0" "Size tinyFile" tinyFile simpleMatch] c f
    by simp
qed

text \<open>
  C3, as amended. When the limit in bytes fits a signed 64-bit integer, that is for
  \<open>-2^43 \<le> MaxFileSizeMB < 2^43\<close>, and a match that reports an error reports no
  match (as \<open>filepath.Match\<close> does), the decision and the reason follow one precedence:
  the file is blocked exactly when it violates a rule, the reason is the text of the
  first rule violated in the order size, allow-list, pattern, and "Unknown reason" is
  returned exactly when the decision is not to block.
\<close>

theorem decision_and_reason_agree:
  assumes "- (2 ^ 43) \<le> sint (MaxFileSizeMB (config s))"
      and "sint (MaxFileSizeMB (config s)) < 2 ^ 43"
      and "errorMeansNoMatch Match (BlockedPatterns (config s)) (Name file)"
  shows "shouldBlockFile Match s file = (firstViolatedRule Match s file \<noteq> None) \<and>
         getBlockReason Match s file = reasonOf (firstViolatedRule Match s file) \<and>
         (getBlockReason Match s file = ''Unknown reason'') = (\<not> shouldBlockFile Match s file)"
proof -
  note sz = size_rule_in_range [OF assms(1,2)]
  have d: "shouldBlockFile Match s file = (firstViolatedRule Match s file \<noteq> None)"
    by (simp add: shouldBlockFile_def firstViolatedRule_def isAllowed_iff list_ex_nameMatches sz)
  have r: "getBlockReason Match s file = reasonOf (firstViolatedRule Match s file)"
    using pattern_loops_agree [OF assms(3)]
    by (simp add: getBlockReason_def firstViolatedRule_def isAllowed_iff sz
        split: option.splits)
  show ?thesis using d r by (simp add: reasonOf_unknown)
qed

theorem decision_and_reason_agree_witness:
  "- (2 ^ 43) \<le> sint (MaxFileSizeMB (config patternScanner)) \<and>
   sint (MaxFileSizeMB (config patternScanner)) < 2 ^ 43 \<and>
   errorMeansNoMatch simpleMatch (BlockedPatterns (config patternScanner)) (Name tempFile) \<and>
   firstViolatedRule simpleMatch patternScanner tempFile = Some (PatternRule ''*.tmp'') \<and>
   shouldBlockFile simpleMatch patternScanner tempFile \<and>
   getBlockReason simpleMatch patternScanner tempFile = ''File matches blocked pattern: *.tmp''"
proof -
  have m: "sint (MaxFileSizeMB (config patternScanner)) = 10"
    by (simp add: patternScanner_def New_def configMB_def)
  have h1: "- (2 ^ 43) \<le> sint (MaxFileSizeMB (config patternScanner))"
    and h2: "sint (MaxFileSizeMB (config patternScanner)) < 2 ^ 43"
    by (simp_all add: m)
  have h: "errorMeansNoMatch simpleMatch (BlockedPatterns (config patternScanner)) (Name tempFile)"
    by code_simp
  have v: "firstViolatedRule simpleMatch patternScanner tempFile = Some (PatternRule ''*.tmp'')"
    by code_simp
  show ?thesis
    using decision_and_reason_agree [OF h1 h2 h] h1 h2 h v by simp
qed

text \<open>
  C3 as stated fails where the product wraps: with \<open>MaxFileSizeMB = 2^43\<close> a file of
  one byte violates no rule (its size is below the limit of \<open>2^63\<close> bytes, there is no
  allow-list and no pattern), yet the decision is to block it and the reason is the
  size reason.
\<close>

theorem decision_and_reason_wrap_counterexample:
  "errorMeansNoMatch simpleMatch (BlockedPatterns (config (New (configMB 8796093022208))))
     (Name tinyFile) \<and>
   firstViolatedRule simpleMatch (New (configMB 8796093022208)) tinyFile = None \<and>
   shouldBlockFile simpleMatch (New (configMB 8796093022208)) tinyFile \<and>
   getBlockReason simpleMatch (New (configMB 8796093022208)) tinyFile
     = ''File size exceeds limit''"
  by (simp add: errorMeansNoMatch_def firstViolatedRule_def limitBytes_def New_def
      configMB_def tinyFile_def isFileSizeAllowed_def shouldBlockFile_def getBlockReason_def
      zeroFileInfo_def)

text \<open>
  C10. A pattern whose match against the file's name reports an error is ignored. The
  decision is the one taken without such patterns. Provided a match that reports an
  error reports no match (as \<open>filepath.Match\<close> does), the reason is the one derived
  without such patterns, and it never names a pattern whose match reports an error.
\<close>

theorem malformed_pattern_ignored:
  "shouldBlockFile Match s file = shouldBlockFile Match (dropMalformed Match file s) file \<and>
   (errorMeansNoMatch Match (BlockedPatterns (config s)) (Name file) \<longrightarrow>
      getBlockReason Match s file = getBlockReason Match (dropMalformed Match file s) file \<and>
      (\<forall>p. snd (Match p (Name file)) \<noteq> None \<longrightarrow>
           getBlockReason Match s file \<noteq> ''File matches blocked pattern: '' @ p))"
proof -
  let ?ps = "BlockedPatterns (config s)"
  let ?ok = "\<lambda>p. snd (Match p (Name file)) = None"
  have ps': "BlockedPatterns (config (dropMalformed Match file s)) = filter ?ok ?ps"
    and at: "AllowedTypes (config (dropMalformed Match file s)) = AllowedTypes (config s)"
    by (simp_all add: dropMalformed_def)
  have "find (nameMatches Match file) (filter ?ok ?ps) = find (nameMatches Match file) ?ps"
    by (rule find_filter_weaker) (simp add: nameMatches_def)
  then have d: "shouldBlockFile Match s file = shouldBlockFile Match (dropMalformed Match file s) file"
    by (simp add: shouldBlockFile_def list_ex_nameMatches ps' at)
  have r: "getBlockReason Match s file = getBlockReason Match (dropMalformed Match file s) file \<and>
      (\<forall>p. snd (Match p (Name file)) \<noteq> None \<longrightarrow>
           getBlockReason Match s file \<noteq> ''File matches blocked pattern: '' @ p)"
    if c: "errorMeansNoMatch Match ?ps (Name file)"
  proof -
    have c': "errorMeansNoMatch Match (filter ?ok ?ps) (Name file)"
      using c by (simp add: errorMeansNoMatch_def)
    have f: "find (\<lambda>p. fst (Match p (Name file))) ?ps = find (nameMatches Match file) ?ps"
      by (rule pattern_loops_agree [OF c])
    have f': "find (\<lambda>p. fst (Match p (Name file))) (filter ?ok ?ps)
              = find (nameMatches Match file) ?ps"
      using pattern_loops_agree [OF c']
        find_filter_weaker [of "nameMatches Match file" ?ok ?ps]
      by (simp add: nameMatches_def)
    have same: "getBlockReason Match s file = getBlockReason Match (dropMalformed Match file s) file"
      by (simp add: getBlockReason_def ps' at f f')
    have never: "getBlockReason Match s file \<noteq> ''File matches blocked pattern: '' @ p"
      if e: "snd (Match p (Name file)) \<noteq> None" for p
    proof (cases "find (nameMatches Match file) ?ps")
      case None
      then show ?thesis by (simp add: getBlockReason_def f)
    next
      case (Some q)
      then have "nameMatches Match file q" by (auto dest: find_Some_D)
      then have "q \<noteq> p" using e by (auto simp: nameMatches_def)
      then show ?thesis using Some by (simp add: getBlockReason_def f)
    qed
    show ?thesis using same never by blast
  qed
  show ?thesis using d r by blast
qed

theorem malformed_pattern_ignored_witness:
  "errorMeansNoMatch simpleMatch (BlockedPatterns (config patternScanner)) (Name tempFile) \<and>
   snd (simpleMatch ''['' (Name tempFile)) \<noteq> None \<and>
   BlockedPatterns (config (dropMalformed simpleMatch tempFile patternScanner)) = [''*.tmp''] \<and>
   shouldBlockFile simpleMatch patternScanner tempFile
     = shouldBlockFile simpleMatch (dropMalformed simpleMatch tempFile patternScanner) tempFile \<and>
   getBlockReason simpleMatch patternScanner tempFile
     = getBlockReason simpleMatch (dropMalformed simpleMatch tempFile patternScanner) tempFile \<and>
   getBlockReason simpleMatch patternScanner tempFile \<noteq> ''File matches blocked pattern: [''"
proof -
  have h: "errorMeansNoMatch simpleMatch (BlockedPatterns (config patternScanner)) (Name tempFile)"
    by code_simp
  have e: "snd (simpleMatch ''['' (Name tempFile)) \<noteq> None"
    by (simp add: simpleMatch_def)
  have p: "BlockedPatterns (config (dropMalformed simpleMatch tempFile patternScanner)) = [''*.tmp'']"
    by code_simp
  from malformed_pattern_ignored [of simpleMatch patternScanner tempFile] h
  have d: "shouldBlockFile simpleMatch patternScanner tempFile
             = shouldBlockFile simpleMatch (dropMalformed simpleMatch tempFile patternScanner) tempFile"
    and r: "getBlockReason simpleMatch patternScanner tempFile
             = getBlockReason simpleMatch (dropMalformed simpleMatch tempFile patternScanner) tempFile"
    and n: "\<forall>p. snd (simpleMatch p (Name tempFile)) \<noteq> None \<longrightarrow>
             getBlockReason simpleMatch patternScanner tempFile
               \<noteq> ''File matches blocked pattern: '' @ p"
    by blast+
  from n e have "getBlockReason simpleMatch patternScanner tempFile
                   \<noteq> ''File matches blocked pattern: '' @ ''[''"
    by blast
  then show ?thesis using h e p d r by simp
qed

section \<open>Traversal and workers\<close>

lemma emitDir_fields [simp]:
  "config (emitDir p n s) = config s"
  "workChan (emitDir p n s) = workChan s"
  "errorChan (emitDir p n s) = errorChan s"
  by (simp_all add: emitDir_def)

lemma sendError_fields [simp]:
  "config (sendError e s) = config s"
  "workChan (sendError e s) = workChan s"
  "resultChan (sendError e s) = resultChan s"
  "progress (sendError e s) = progress s"
  "errorChan (sendError e s) = errorChan s @ [e]"
  by (simp_all add: sendError_def)

lemma sendWork_fields [simp]:
  "config (sendWork w s) = config s"
  "workChan (sendWork w s) = workChan s @ [w]"
  "errorChan (sendWork w s) = errorChan s"
  "resultChan (sendWork w s) = resultChan s"
  "progress (sendWork w s) = progress s"
  by (simp_all add: sendWork_def)

lemma processFile_fields [simp]:
  "config (processFile M D w obj s) = config s"
  "workChan (processFile M D w obj s) = workChan s"
  "errorChan (processFile M D w obj s) = errorChan s"
  by (simp_all add: processFile_def Let_def split: sum.splits prod.splits option.splits)

text \<open>
  The traversal is built from four steps: a directory record is emitted, an error is
  sent, a file item is queued, a worker processes a file. What all four keep, the
  traversal keeps.
\<close>

lemma traversal_invariant:
  assumes emit: "\<And>p n s. I s \<Longrightarrow> I (emitDir p n s)"
      and serr: "\<And>e s. I s \<Longrightarrow> I (sendError e s)"
      and swork: "\<And>w s. \<not> IsDir w \<Longrightarrow> I s \<Longrightarrow> I (sendWork w s)"
      and pfile: "\<And>M D w obj s. I s \<Longrightarrow> I (processFile M D w obj s)"
  shows "I s \<Longrightarrow> I (processWork M D w obj s)"
    and "I s \<Longrightarrow> I (scanDirectory M D path root obj s)"
    and "I s \<Longrightarrow> I (scanEntries M D path root es s)"
proof (induction M D w obj s and M D path root obj s and M D path root es s
      rule: processWork_scanDirectory_scanEntries.induct)
  case (1 Match Detect work obj s)
  then show ?case by (simp add: pfile)
next
  case (2 Match Detect path root st op rd rderr entries s)
  then show ?case
    by (cases "path = root") (auto simp: Let_def emit serr split: option.splits)
next
  case (3 Match Detect path root s)
  then show ?case by simp
next
  case (4 Match Detect path root name einfo obj rest s)
  show ?case
  proof (cases einfo)
    case (Inl e)
    with "4.IH"(1) [OF refl Inl] "4.prems" show ?thesis
      by (simp add: Let_def serr)
  next
    case (Inr info)
    note IH = "4.IH"(2-) [OF refl Inr]
    from IH "4.prems" Inr show ?thesis
      by (auto simp: Let_def emit swork)
  qed
qed

lemma config_processWork: "config (processWork M D w obj s) = config s"
  by (rule traversal_invariant(1) [where I = "\<lambda>t. config t = config s"]) simp_all





section \<open>The counters and the file list\<close>

lemma recordCount_snoc:
  "recordCount (rs @ [res]) = (if Error' res = None then recordCount rs + 1 else recordCount rs)"
  by (simp add: recordCount_def)

lemma collectResults_eq:
  "collectResults rs files p =
     (files @ map FileInfo' (filter (\<lambda>res. Error' res = None) rs),
      p\<lparr>Errors := Errors p @ map (\<lambda>res. the (Error' res)) (filter (\<lambda>res. Error' res \<noteq> None) rs)\<rparr>)"
  by (induction rs arbitrary: files p) (auto split: option.splits)

text \<open>
  What the counters of the code do count: every record on the result channel was
  counted once, a directory record in \<open>TotalFiles\<close> and a file record in
  \<open>ScannedFiles\<close>.
\<close>

lemma records_counted_once:
  assumes "recordCount (resultChan s) = TotalFiles (progress s) + ScannedFiles (progress s)"
  shows "recordCount (resultChan (processWork M D w obj s))
         = TotalFiles (progress (processWork M D w obj s))
           + ScannedFiles (progress (processWork M D w obj s))"
proof (rule traversal_invariant(1)
    [where I = "\<lambda>t. recordCount (resultChan t) = TotalFiles (progress t) + ScannedFiles (progress t)"])
  show "recordCount (resultChan s) = TotalFiles (progress s) + ScannedFiles (progress s)"
    by (rule assms)
next
  fix p n and t :: Scanner
  assume "recordCount (resultChan t) = TotalFiles (progress t) + ScannedFiles (progress t)"
  then show "recordCount (resultChan (emitDir p n t))
             = TotalFiles (progress (emitDir p n t)) + ScannedFiles (progress (emitDir p n t))"
    by (simp add: emitDir_def recordCount_snoc)
next
  fix M D w obj and t :: Scanner
  assume "recordCount (resultChan t) = TotalFiles (progress t) + ScannedFiles (progress t)"
  then show "recordCount (resultChan (processFile M D w obj t))
             = TotalFiles (progress (processFile M D w obj t))
               + ScannedFiles (progress (processFile M D w obj t))"
    by (simp add: processFile_def Let_def recordCount_snoc split: sum.splits)
qed simp_all

lemma files_are_directories_plus_scanned:
  assumes "Scan M D env fs (New cfg) root = ScanOk r"
  shows "of_nat (length (Files r)) = TotalFiles (Progress r) + ScannedFiles (Progress r)"
proof -
  obtain info where st: "statOf fs = Inr info"
    using assms by (cases "statOf fs") (auto simp: Scan_def split: if_splits)
  let ?w = "\<lparr>Path' = root, IsDir = stIsDir info, Priority = 1\<rparr>"
  let ?s1 = "sendWork ?w (New cfg)"
  let ?s2 = "processWork M D ?w fs ?s1"
  have w: "last (workChan ?s1) = ?w" by simp
  have "recordCount (resultChan ?s1) = TotalFiles (progress ?s1) + ScannedFiles (progress ?s1)"
    by (simp add: New_def Let_def recordCount_def zeroScanProgress_def)
  then have inv: "recordCount (resultChan ?s2) = TotalFiles (progress ?s2) + ScannedFiles (progress ?s2)"
    by (rule records_counted_once)
  let ?files = "map FileInfo' (filter (\<lambda>res. Error' res = None) (resultChan ?s2))"
  have len: "of_nat (length ?files) = TotalFiles (progress ?s2) + ScannedFiles (progress ?s2)"
    using inv by (simp add: recordCount_def)
  from assms st w have "Files r = ?files \<and> TotalFiles (Progress r) = TotalFiles (progress ?s2)
      \<and> ScannedFiles (Progress r) = ScannedFiles (progress ?s2)"
    by (auto simp: Scan_def startScan_def Let_def collectResults_eq
        split: if_splits sum.splits)
  with len show ?thesis by simp
qed

text \<open>
  C1 fails on the code. Scanning the example tree (the root, one subdirectory, two
  files) completes with four records, two of them directories and two files, and
  \<open>TotalFiles = 2\<close>: the counter was incremented for the directories only.
\<close>

theorem total_files_counts_directories_only:
  "\<exists>r. Scan simpleMatch octetSniffer exportWorks exampleTree (New (configMB 1)) ''/r'' = ScanOk r \<and>
       map Path (Files r) = [''/r'', ''/r/a.txt'', ''/r/sub'', ''/r/sub/b.txt''] \<and>
       map IsDirectory (Files r) = [True, False, True, False] \<and>
       TotalFiles (Progress r) = 2 \<and> ScannedFiles (Progress r) = 2 \<and>
       length (Files r) = 4"
proof -
  have "(case Scan simpleMatch octetSniffer exportWorks exampleTree (New (configMB 1)) ''/r'' of
           ScanOk r \<Rightarrow>
             map Path (Files r) = [''/r'', ''/r/a.txt'', ''/r/sub'', ''/r/sub/b.txt''] \<and>
             map IsDirectory (Files r) = [True, False, True, False] \<and>
             TotalFiles (Progress r) = 2 \<and> ScannedFiles (Progress r) = 2 \<and>
             length (Files r) = 4
         | _ \<Rightarrow> False)"
    by code_simp
  then show ?thesis by (auto split: ScanOutcome.splits)
qed

text \<open>
  C5 fails on the code. In the second tree \<open>/r/locked\<close> cannot be listed. The
  traversal sends the error, with the path, on \<open>errorChan\<close>, from which nothing
  receives: the scan completes with the record of \<open>/r/locked\<close> and nothing below it,
  with an empty error log and \<open>Success = true\<close>.
\<close>

theorem directory_read_error_is_lost:
  "\<exists>s' r. scanState simpleMatch octetSniffer lockedTree ''/r'' (New (configMB 1)) = Inr s' \<and>
          errorChan s' = [''error reading directory /r/locked: permission denied''] \<and>
          Scan simpleMatch octetSniffer exportWorks lockedTree (New (configMB 1)) ''/r'' = ScanOk r \<and>
          map Path (Files r) = [''/r'', ''/r/a.txt'', ''/r/locked''] \<and>
          Errors (Progress r) = [] \<and> Success r"
proof -
  have a: "(case scanState simpleMatch octetSniffer lockedTree ''/r'' (New (configMB 1)) of
           Inr s' \<Rightarrow> errorChan s' = [''error reading directory /r/locked: permission denied'']
         | Inl _ \<Rightarrow> False)"
    by code_simp
  have b: "(case Scan simpleMatch octetSniffer exportWorks lockedTree (New (configMB 1)) ''/r'' of
           ScanOk r \<Rightarrow> map Path (Files r) = [''/r'', ''/r/a.txt'', ''/r/locked''] \<and>
                       Errors (Progress r) = [] \<and> Success r
         | _ \<Rightarrow> False)"
    by code_simp
  from a b show ?thesis by (auto split: ScanOutcome.splits sum.splits)
qed

section \<open>The success flag and the export\<close>

lemma ExportBlockedFiles_ignores_errors:
  "ExportBlockedFiles env (r\<lparr>Progress := (Progress r)\<lparr>Errors := es\<rparr>\<rparr>) p
   = ExportBlockedFiles env r p"
  by (simp add: ExportBlockedFiles_def)

text \<open>
  C4, as amended. The success flag of a completed scan is true exactly when the error
  log was empty before the export was attempted. When the export collaborator fails,
  its error is appended to the error log as the last entry and the flag is left as it
  was computed, so success is true exactly when that entry is the only one. When the
  export is not configured or does not fail, success is true exactly when the final
  error log is empty.
\<close>

theorem success_is_error_log_before_export:
  assumes "Scan Match Detect env fs s root = ScanOk r"
  shows "(exportFails env s r root \<longrightarrow>
            (\<exists>e pre. ExportBlockedFiles env r (Join root ''blocked_files.json'') = Inl e \<and>
                     Errors (Progress r) = pre @ [''Failed to export blocked files: '' @ e] \<and>
                     Success r = (pre = []))) \<and>
         (\<not> exportFails env s r root \<longrightarrow> Success r = (Errors (Progress r) = []))"
proof -
  obtain info where st: "statOf fs = Inr info"
    using assms by (cases "statOf fs") (auto simp: Scan_def split: if_splits)
  let ?w = "\<lparr>Path' = root, IsDir = stIsDir info, Priority = 1\<rparr>"
  let ?s1 = "sendWork ?w s"
  let ?s2 = "processWork Match Detect ?w fs ?s1"
  have w: "last (workChan ?s1) = ?w" by simp
  have "config ?s2 = config ?s1" by (rule config_processWork)
  then have cfg: "config ?s2 = config s" by simp
  obtain files p where c: "collectResults (resultChan ?s2) [] (progress ?s2) = (files, p)"
    by (cases "collectResults (resultChan ?s2) [] (progress ?s2)")
  let ?res = "\<lparr>Files = files, Progress = p, Success = (length (Errors p) = 0), Error = []\<rparr>"
  let ?path = "Join root ''blocked_files.json''"
  from assms st w cfg c have r:
    "r = (if ExportBlockedToJSON (config s) then
            (case ExportBlockedFiles env ?res ?path of
               Inl e \<Rightarrow> ?res\<lparr>Progress := (Progress ?res)
                          \<lparr>Errors := Errors (Progress ?res) @
                             [''Failed to export blocked files: '' @ e]\<rparr>\<rparr>
             | Inr _ \<Rightarrow> ?res)
          else ?res)"
    by (auto simp: Scan_def startScan_def Let_def split: if_splits sum.splits)
  show ?thesis
  proof (cases "ExportBlockedToJSON (config s)")
    case False
    with r show ?thesis by (simp add: exportFails_def)
  next
    case True
    show ?thesis
    proof (cases "ExportBlockedFiles env ?res ?path")
      case (Inr d)
      with r True have "r = ?res" by simp
      with Inr True show ?thesis by (simp add: exportFails_def)
    next
      case (Inl e)
      with r True have r': "r = ?res\<lparr>Progress := (Progress ?res)
                          \<lparr>Errors := Errors (Progress ?res) @
                             [''Failed to export blocked files: '' @ e]\<rparr>\<rparr>"
        by simp
      have "ExportBlockedFiles env r ?path = ExportBlockedFiles env ?res ?path"
        unfolding r' by (rule ExportBlockedFiles_ignores_errors)
      with Inl have e: "ExportBlockedFiles env r ?path = Inl e" by simp
      have "Errors (Progress r) = Errors p @ [''Failed to export blocked files: '' @ e]"
        and "Success r = (Errors p = [])"
        by (simp_all add: r')
      with e True show ?thesis by (auto simp: exportFails_def)
    qed
  qed
qed

theorem success_is_error_log_before_export_witness:
  "\<exists>r. Scan simpleMatch octetSniffer exportDenied vanishedTree exportingScanner ''/r'' = ScanOk r \<and>
       exportFails exportDenied exportingScanner r ''/r'' \<and>
       Errors (Progress r) =
         [''stat /r/gone.txt: no such file or directory''] @
         [''Failed to export blocked files: failed to create output file: permission denied''] \<and>
       Success r = ([''stat /r/gone.txt: no such file or directory''] = [])"
proof -
  have "(case Scan simpleMatch octetSniffer exportDenied vanishedTree exportingScanner ''/r'' of
           ScanOk r \<Rightarrow>
             Errors (Progress r) =
               [''stat /r/gone.txt: no such file or directory'',
                ''Failed to export blocked files: failed to create output file: permission denied''] \<and>
             \<not> Success r \<and> exportFails exportDenied exportingScanner r ''/r''
         | _ \<Rightarrow> False)"
    by code_simp
  then obtain r where
    s: "Scan simpleMatch octetSniffer exportDenied vanishedTree exportingScanner ''/r'' = ScanOk r"
    and e: "Errors (Progress r) =
               [''stat /r/gone.txt: no such file or directory'',
                ''Failed to export blocked files: failed to create output file: permission denied'']"
    and n: "\<not> Success r"
    and x: "exportFails exportDenied exportingScanner r ''/r''"
    by (auto split: ScanOutcome.splits)
  from success_is_error_log_before_export [OF s] x s e n show ?thesis by simp
qed

text \<open>
  C4 as stated fails when only the export fails: the scan of the example tree records
  no error, the export cannot create its file, and the result has \<open>Success = true\<close>
  with an error log of one entry.
\<close>

theorem export_failure_keeps_success_counterexample:
  "\<exists>r. Scan simpleMatch octetSniffer exportDenied exampleTree exportingScanner ''/r'' = ScanOk r \<and>
       Success r \<and>
       Errors (Progress r) =
         [''Failed to export blocked files: failed to create output file: permission denied'']"
proof -
  have "(case Scan simpleMatch octetSniffer exportDenied exampleTree exportingScanner ''/r'' of
           ScanOk r \<Rightarrow>
             Success r \<and>
             Errors (Progress r) =
               [''Failed to export blocked files: failed to create output file: permission denied'']
         | _ \<Rightarrow> False)"
    by code_simp
  then show ?thesis by (auto split: ScanOutcome.splits)
qed

section \<open>The record a worker produces\<close>






lemma detectFileType_ok:
  "fst (detectFileType D obj f) = None \<longleftrightarrow> (\<forall>e. \<not> readFails obj e)"
  by (cases "openOf obj"; cases "snd (readOf obj)")
     (auto simp: detectFileType_def readFails_def Let_def)





end
